theory Spec2Isabelle
  imports Main "HOL-Library.Multiset" "HOL-Library.Char_ord" "HOL-Library.List_Lexorder"
    "HOL-Library.Product_Lexorder"
begin

section \<open>JavaScript values\<close>

text \<open>
  The cache store holds untyped values (\<open>Promise<any>\<close>). A number is an integer here:
  the only numbers the middleware computes with are epoch milliseconds.
\<close>

datatype jsvalue =
    Undefined
  | Null
  | Boolean bool
  | Number int
  | String string
  | Array "jsvalue list"
  | Object "(string \<times> jsvalue) list"

text \<open>The test of \<open>if (v)\<close> and of \<open>v ? a : b\<close>.\<close>

fun truthy :: "jsvalue \<Rightarrow> bool" where
  "truthy Undefined = False"
| "truthy Null = False"
| "truthy (Boolean b) = b"
| "truthy (Number n) = (n \<noteq> 0)"
| "truthy (String s) = (s \<noteq> [])"
| "truthy (Array xs) = True"
| "truthy (Object kvs) = True"

text \<open>
  \<open>v?.exp\<close>: undefined when \<open>v\<close> is undefined or null, the property otherwise; only
  an object can own a property of that name.
\<close>

fun optional_exp :: "jsvalue \<Rightarrow> jsvalue" where
  "optional_exp (Object kvs) = (case map_of kvs ''exp'' of None \<Rightarrow> Undefined | Some v \<Rightarrow> v)"
| "optional_exp v = Undefined"

text \<open>
  \<open>String.prototype.toLowerCase\<close> on the letters A to Z, every other character left
  as it is, and \<open>String.prototype.startsWith\<close>.
\<close>

definition lower_char :: "char \<Rightarrow> char" where
  "lower_char c =
     (let n = (of_char c :: nat) in if 65 \<le> n \<and> n \<le> 90 then char_of (n + 32) else c)"

definition toLowerCase :: "string \<Rightarrow> string" where
  "toLowerCase s = map lower_char s"

definition startsWith :: "string \<Rightarrow> string \<Rightarrow> bool" where
  "startsWith s p = (take (length p) s = p)"

text \<open>
  \<open>s?.startsWith(p)\<close> on a field that may be undefined: \<open>None\<close> is the undefined that
  optional chaining yields, so that \<open>=== false\<close> holds for \<open>Some False\<close> only.
\<close>

definition optional_startsWith :: "string option \<Rightarrow> string \<Rightarrow> bool option" where
  "optional_startsWith s p = (case s of None \<Rightarrow> None | Some u \<Rightarrow> Some (startsWith u p))"

section \<open>The cache middleware\<close>

text \<open>An error thrown by a collaborator: an \<open>Error\<close> object with its message.\<close>

datatype error = Error (message: string)

text \<open>
  The settings read from \<open>env\<close>: absent, a boolean or a string. \<open>CACHE_ENABLED\<close> is
  compared with \<open>true\<close> by \<open>!==\<close>; \<open>CACHE_STATUS_HEADER\<close> is tested for truthiness and
  interpolated into a template string.
\<close>

datatype env_value = EnvUndefined | EnvBoolean bool | EnvString string

fun env_truthy :: "env_value \<Rightarrow> bool" where
  "env_truthy EnvUndefined = False"
| "env_truthy (EnvBoolean b) = b"
| "env_truthy (EnvString s) = (s \<noteq> [])"

fun env_toString :: "env_value \<Rightarrow> string" where
  "env_toString EnvUndefined = ''undefined''"
| "env_toString (EnvBoolean b) = (if b then ''true'' else ''false'')"
| "env_toString (EnvString s) = s"

record env =
  CACHE_ENABLED :: env_value
  CACHE_STATUS_HEADER :: env_value

text \<open>
  The two fields of the request that the middleware reads itself: \<open>req.method\<close> and
  \<open>req.originalUrl\<close>.
\<close>

record request =
  req_method :: string
  originalUrl :: "string option"

text \<open>
  \<open>cacheTTL\<close>, the second argument of \<open>getCacheControlHeader\<close>: undefined, or the
  difference \<open>cacheExpiryDate - Date.now()\<close>. When \<open>cacheExpiryDate\<close> is truthy but no
  number, JavaScript coerces it first; the middleware never inspects the result, so
  the operands are kept as they are.
\<close>

datatype ttl = TTL_undefined | TTL_ms int | TTL_coerced jsvalue int

definition cacheTTL :: "jsvalue \<Rightarrow> int \<Rightarrow> ttl" where
  "cacheTTL cacheExpiryDate now =
     (if truthy cacheExpiryDate
      then (case cacheExpiryDate of Number n \<Rightarrow> TTL_ms (n - now) | v \<Rightarrow> TTL_coerced v now)
      else TTL_undefined)"

text \<open>
  The imported collaborators, as parameters: \<open>getCacheValue\<close> resolves to the stored
  value (undefined for a missing key) or rejects; the other three are pure.
\<close>

record ('r, 'c) deps =
  shouldSkipCache :: "'r request_scheme \<Rightarrow> bool"
  getCacheKey :: "'r request_scheme \<Rightarrow> string"
  getCacheValue :: "'c \<Rightarrow> string \<Rightarrow> error + jsvalue"
  getCacheControlHeader :: "'r request_scheme \<Rightarrow> ttl \<Rightarrow> bool \<Rightarrow> bool \<Rightarrow> string"

text \<open>
  How the handler ends: \<open>next()\<close> hands the request to the downstream handlers,
  \<open>res.json(cachedData)\<close> answers it.
\<close>

datatype outcome = Pending | Next | Json jsvalue

text \<open>
  What the handler does to the world, in the order it does it: the \<open>res.setHeader\<close>
  calls, the keys it reads from the store, the \<open>logger.warn\<close> calls, and how it ends.
\<close>

record effects =
  headers :: "(string \<times> string) list"
  store_reads :: "string list"
  warnings :: "(error \<times> string) list"
  ending :: outcome

definition start :: effects where
  "start = \<lparr>headers = [], store_reads = [], warnings = [], ending = Pending\<rparr>"

definition setHeader :: "string \<Rightarrow> string \<Rightarrow> effects \<Rightarrow> effects" where
  "setHeader name v s = s\<lparr>headers := headers s @ [(name, v)]\<rparr>"

definition logger_warn :: "error \<Rightarrow> string \<Rightarrow> effects \<Rightarrow> effects" where
  "logger_warn err msg s = s\<lparr>warnings := warnings s @ [(err, msg)]\<rparr>"

definition store_read :: "string \<Rightarrow> effects \<Rightarrow> effects" where
  "store_read key s = s\<lparr>store_reads := store_reads s @ [key]\<rparr>"

definition call_next :: "effects \<Rightarrow> effects" where
  "call_next s = s\<lparr>ending := Next\<rparr>"

definition res_json :: "jsvalue \<Rightarrow> effects \<Rightarrow> effects" where
  "res_json body s = s\<lparr>ending := Json body\<rparr>"

text \<open>\<open>if (env['CACHE_STATUS_HEADER']) res.setHeader(`${env['CACHE_STATUS_HEADER']}`, v)\<close>\<close>

definition set_status :: "env \<Rightarrow> string \<Rightarrow> effects \<Rightarrow> effects" where
  "set_status e v s =
     (if env_truthy (CACHE_STATUS_HEADER e)
      then setHeader (env_toString (CACHE_STATUS_HEADER e)) v s else s)"

text \<open>The calls of \<open>setHeader\<close> that \<open>set_status\<close> adds: one if the header is configured.\<close>

definition status_header :: "env \<Rightarrow> string \<Rightarrow> (string \<times> string) list" where
  "status_header e v =
     (if env_truthy (CACHE_STATUS_HEADER e) then [(env_toString (CACHE_STATUS_HEADER e), v)]
      else [])"

text \<open>The message of the warning logged when a read of \<open>key\<close> fails with \<open>err\<close>.\<close>

definition read_failure :: "string \<Rightarrow> error \<Rightarrow> string" where
  "read_failure key err = ''[cache] Couldn't read key '' @ key @ ''. '' @ message err"

text \<open>The first line of the handler: a verb other than GET outside \<open>/graphql\<close>.\<close>

definition mutating_verb :: "'r request_scheme \<Rightarrow> bool" where
  "mutating_verb req =
     (toLowerCase (req_method req) \<noteq> ''get''
      \<and> optional_startsWith (originalUrl req) ''/graphql'' = Some False)"

text \<open>
  \<open>checkCacheMiddleware\<close>. The cache is what \<open>getCache()\<close> returns (\<open>None\<close> when there
  is no store), \<open>now\<close> what \<open>Date.now()\<close> returns.
\<close>

definition checkCacheMiddleware ::
  "('r, 'c) deps \<Rightarrow> env \<Rightarrow> 'c option \<Rightarrow> int \<Rightarrow> 'r request_scheme \<Rightarrow> effects" where
  "checkCacheMiddleware d e cache now req =
     (if mutating_verb req then call_next start
      else if CACHE_ENABLED e \<noteq> EnvBoolean True then call_next start
      else case cache of
        None \<Rightarrow> call_next start
      | Some c \<Rightarrow>
          if shouldSkipCache d req then call_next (set_status e ''MISS'' start)
          else
            let key = getCacheKey d req in
            (case getCacheValue d c key of
               Inl err \<Rightarrow>
                 call_next (set_status e ''MISS''
                   (logger_warn err (read_failure key err) (store_read key start)))
             | Inr cachedData \<Rightarrow>
                 if truthy cachedData then
                   (case getCacheValue d c (key @ ''__expires_at'') of
                      Inl err \<Rightarrow>
                        call_next (set_status e ''MISS''
                          (logger_warn err (read_failure (key @ ''__expires_at'') err)
                            (store_read (key @ ''__expires_at'') (store_read key start))))
                    | Inr expiry \<Rightarrow>
                        let cacheExpiryDate = optional_exp expiry;
                            ttl = cacheTTL cacheExpiryDate now
                        in res_json cachedData
                             (set_status e ''HIT''
                               (setHeader ''Vary'' ''Origin, Cache-Control''
                                 (setHeader ''Cache-Control''
                                    (getCacheControlHeader d req ttl True True)
                                    (store_read (key @ ''__expires_at'')
                                      (store_read key start))))))
                 else call_next (set_status e ''MISS'' (store_read key start))))"

section \<open>The webhooks service\<close>

text \<open>\<open>PrimaryKey = string | number\<close>; an item and a message payload are plain objects.\<close>

datatype primary_key = KeyString string | KeyNumber int

type_synonym item = "(string \<times> jsvalue) list"

type_synonym payload = "(string \<times> jsvalue) list"

text \<open>
  The inherited \<open>ItemsService\<close> methods (\<open>super.createOne\<close> and so on), as parameters:
  each maps the database to the keys it wrote or to the error it throws, and to the
  database it leaves behind.
\<close>

record ('db, 'opts) items_service =
  super_createOne :: "item \<Rightarrow> 'opts option \<Rightarrow> 'db \<Rightarrow> (error + primary_key) \<times> 'db"
  super_createMany ::
    "item list \<Rightarrow> 'opts option \<Rightarrow> 'db \<Rightarrow> (error + primary_key list) \<times> 'db"
  super_updateMany ::
    "primary_key list \<Rightarrow> item \<Rightarrow> 'opts option \<Rightarrow> 'db \<Rightarrow> (error + primary_key list) \<times> 'db"
  super_deleteMany ::
    "primary_key list \<Rightarrow> 'opts option \<Rightarrow> 'db \<Rightarrow> (error + primary_key list) \<times> 'db"

text \<open>
  The messenger that \<open>getMessenger()\<close> returns, as a parameter: \<open>publish\<close> changes the
  bus and either returns or throws. A failure that shows only after the call has
  returned (a rejected promise that nobody awaits) is a call that returns.
\<close>

record 'bus messenger =
  publish :: "string \<Rightarrow> payload \<Rightarrow> 'bus \<Rightarrow> error option \<times> 'bus"

text \<open>The world of the service: the database, the bus, and the calls of \<open>publish\<close> so far.\<close>

record ('db, 'bus) world =
  database :: 'db
  bus :: 'bus
  publish_calls :: "(string \<times> payload) list"

definition messenger_publish ::
  "'bus messenger \<Rightarrow> string \<Rightarrow> payload \<Rightarrow> ('db, 'bus) world
     \<Rightarrow> error option \<times> ('db, 'bus) world" where
  "messenger_publish m channel p w =
     (case publish m channel p (bus w) of
        (thrown, b) \<Rightarrow>
          (thrown, w\<lparr>bus := b, publish_calls := publish_calls w @ [(channel, p)]\<rparr>))"

definition reload :: payload where
  "reload = [(''type'', String ''reload'')]"

text \<open>
  The two statements that follow the awaited call in each method:
  \<open>this.messenger.publish('webhooks', { type: 'reload' }); return result;\<close>
  with no handler around the call, so what \<open>publish\<close> throws leaves the method.
\<close>

definition publish_and_return ::
  "'bus messenger \<Rightarrow> 'a \<Rightarrow> ('db, 'bus) world \<Rightarrow> (error + 'a) \<times> ('db, 'bus) world" where
  "publish_and_return m result w =
     (case messenger_publish m ''webhooks'' reload w of
        (Some err, w') \<Rightarrow> (Inl err, w')
      | (None, w') \<Rightarrow> (Inr result, w'))"

definition createOne ::
  "('db, 'opts) items_service \<Rightarrow> 'bus messenger \<Rightarrow> item \<Rightarrow> 'opts option \<Rightarrow> ('db, 'bus) world
     \<Rightarrow> (error + primary_key) \<times> ('db, 'bus) world" where
  "createOne svc m data opts w =
     (case super_createOne svc data opts (database w) of
        (Inl err, db) \<Rightarrow> (Inl err, w\<lparr>database := db\<rparr>)
      | (Inr result, db) \<Rightarrow> publish_and_return m result (w\<lparr>database := db\<rparr>))"

definition createMany ::
  "('db, 'opts) items_service \<Rightarrow> 'bus messenger \<Rightarrow> item list \<Rightarrow> 'opts option \<Rightarrow> ('db, 'bus) world
     \<Rightarrow> (error + primary_key list) \<times> ('db, 'bus) world" where
  "createMany svc m data opts w =
     (case super_createMany svc data opts (database w) of
        (Inl err, db) \<Rightarrow> (Inl err, w\<lparr>database := db\<rparr>)
      | (Inr result, db) \<Rightarrow> publish_and_return m result (w\<lparr>database := db\<rparr>))"

definition updateMany ::
  "('db, 'opts) items_service \<Rightarrow> 'bus messenger \<Rightarrow> primary_key list \<Rightarrow> item \<Rightarrow> 'opts option
     \<Rightarrow> ('db, 'bus) world \<Rightarrow> (error + primary_key list) \<times> ('db, 'bus) world" where
  "updateMany svc m keys data opts w =
     (case super_updateMany svc keys data opts (database w) of
        (Inl err, db) \<Rightarrow> (Inl err, w\<lparr>database := db\<rparr>)
      | (Inr result, db) \<Rightarrow> publish_and_return m result (w\<lparr>database := db\<rparr>))"

definition deleteMany ::
  "('db, 'opts) items_service \<Rightarrow> 'bus messenger \<Rightarrow> primary_key list \<Rightarrow> 'opts option
     \<Rightarrow> ('db, 'bus) world \<Rightarrow> (error + primary_key list) \<times> ('db, 'bus) world" where
  "deleteMany svc m keys opts w =
     (case super_deleteMany svc keys opts (database w) of
        (Inl err, db) \<Rightarrow> (Inl err, w\<lparr>database := db\<rparr>)
      | (Inr result, db) \<Rightarrow> publish_and_return m result (w\<lparr>database := db\<rparr>))"

section \<open>Key derivation\<close>

text \<open>
  The request as the key deriver and the skip policy see it: the path, the query
  parameters in the order they were sent, the identity of the caller and the
  cache-control directive of the caller.
\<close>

record api_request = request +
  path :: string
  query :: "(string \<times> string) list"
  caller :: string
  cache_control :: "string option"

text \<open>
  Modelled from the spec: the normalisation of the query parameters inside
  \<open>getCacheKey\<close> (\<open>utils/get-cache-key\<close>, imported by the middleware and absent from the
  sources). The spec asks for an order that does not depend on the order sent, such
  as sorted by name; parameters are sorted by name and, under one name, by value.
\<close>

definition canonical_query :: "(string \<times> string) list \<Rightarrow> string" where
  "canonical_query q = concat (map (\<lambda>(k, v). k @ ''='' @ v @ ''&'') (sort q))"

text \<open>
  Modelled from the spec: \<open>getCacheKey\<close> itself, the spec's \<open>deriveKey(request) -> string\<close>,
  absent from the sources. The key is a function of the method, the full path, the
  canonical query string and, where the resource enforces per-caller visibility
  (\<open>per_caller\<close> on the path), the identity of the caller.
\<close>

definition deriveKey :: "(string \<Rightarrow> bool) \<Rightarrow> api_request \<Rightarrow> string" where
  "deriveKey per_caller req =
     req_method req @ '' '' @ path req @ ''?'' @ canonical_query (query req) @ ''#''
       @ (if per_caller (path req) then caller req else [])"

section \<open>Examples\<close>

text \<open>
  Concrete collaborators on which the theorems below are instantiated: a store that
  is a table from keys to what the read of that key yields, a skip policy that reads
  the \<open>no-store\<close> directive, and a header function that shows which TTL it was given.
\<close>

type_synonym table_store = "(string \<times> (error + jsvalue)) list"

definition table_getCacheValue :: "table_store \<Rightarrow> string \<Rightarrow> error + jsvalue" where
  "table_getCacheValue t key = (case map_of t key of None \<Rightarrow> Inr Undefined | Some r \<Rightarrow> r)"

fun no_store_shouldSkipCache :: "api_request \<Rightarrow> bool" where
  "no_store_shouldSkipCache req = (cache_control req = Some ''no-store'')"

fun probe_getCacheControlHeader :: "api_request \<Rightarrow> ttl \<Rightarrow> bool \<Rightarrow> bool \<Rightarrow> string" where
  "probe_getCacheControlHeader req TTL_undefined g p = ''no-cache''"
| "probe_getCacheControlHeader req (TTL_ms n) g p =
     (if n < 0 then ''max-age<0'' else if n = 0 then ''max-age=0'' else ''max-age>0'')"
| "probe_getCacheControlHeader req (TTL_coerced v now) g p = ''max-age=?''"

fun users_only :: "string \<Rightarrow> bool" where
  "users_only p = startsWith p ''/users''"

fun path_getCacheKey :: "api_request \<Rightarrow> string" where
  "path_getCacheKey req = path req"

definition table_deps :: "(unit api_request_ext, table_store) deps" where
  "table_deps =
     \<lparr>shouldSkipCache = no_store_shouldSkipCache, getCacheKey = path_getCacheKey,
      getCacheValue = table_getCacheValue, getCacheControlHeader = probe_getCacheControlHeader\<rparr>"

definition status_env :: env where
  "status_env = \<lparr>CACHE_ENABLED = EnvBoolean True, CACHE_STATUS_HEADER = EnvString ''X-Cache''\<rparr>"

definition off_env :: env where
  "off_env = \<lparr>CACHE_ENABLED = EnvString ''true'', CACHE_STATUS_HEADER = EnvString ''X-Cache''\<rparr>"

definition get_items :: api_request where
  "get_items =
     \<lparr>req_method = ''GET'', originalUrl = Some ''/items?sort=name'', path = ''/items'',
      query = [(''sort'', ''name'')], caller = ''alice'', cache_control = None\<rparr>"

definition get_items_no_store :: api_request where
  "get_items_no_store = get_items\<lparr>cache_control := Some ''no-store''\<rparr>"

definition post_items :: api_request where
  "post_items = get_items\<lparr>req_method := ''POST'', originalUrl := Some ''/items''\<rparr>"

definition post_items_no_store :: api_request where
  "post_items_no_store = post_items\<lparr>cache_control := Some ''no-store''\<rparr>"

definition post_no_url :: api_request where
  "post_no_url = get_items\<lparr>req_method := ''POST'', originalUrl := None\<rparr>"

definition post_no_url_no_store :: api_request where
  "post_no_url_no_store = post_no_url\<lparr>cache_control := Some ''no-store''\<rparr>"

definition items_a_b :: api_request where
  "items_a_b =
     get_items\<lparr>originalUrl := Some ''/items?a=1&b=2'', query := [(''a'', ''1''), (''b'', ''2'')]\<rparr>"

definition items_b_a :: api_request where
  "items_b_a =
     get_items\<lparr>originalUrl := Some ''/items?b=2&a=1'', query := [(''b'', ''2''), (''a'', ''1'')]\<rparr>"

definition users_me :: api_request where
  "users_me = get_items\<lparr>originalUrl := Some ''/users/me'', path := ''/users/me'', query := []\<rparr>"

definition items_body :: jsvalue where
  "items_body = Object [(''data'', Array [Object [(''id'', Number 1)]])]"

definition fresh_store :: table_store where
  "fresh_store =
     [(''/items'', Inr items_body),
      (''/items__expires_at'', Inr (Object [(''exp'', Number 61000)]))]"

definition stale_store :: table_store where
  "stale_store =
     [(''/items'', Inr items_body),
      (''/items__expires_at'', Inr (Object [(''exp'', Number 500)]))]"

definition epoch_store :: table_store where
  "epoch_store =
     [(''/items'', Inr items_body),
      (''/items__expires_at'', Inr (Object [(''exp'', Number 0)]))]"

definition no_expiry_store :: table_store where
  "no_expiry_store = [(''/items'', Inr items_body)]"

definition empty_store :: table_store where
  "empty_store = []"

definition down_store :: table_store where
  "down_store = [(''/items'', Inl (Error ''ECONNREFUSED''))]"

definition half_down_store :: table_store where
  "half_down_store =
     [(''/items'', Inr items_body), (''/items__expires_at'', Inl (Error ''ETIMEDOUT''))]"

text \<open>
  An items service over a table of rows, which rolls back on failure, a messenger
  that delivers into a list, and one whose \<open>publish\<close> throws.
\<close>

type_synonym rows = "(primary_key \<times> item) list"

fun rows_createOne :: "item \<Rightarrow> unit option \<Rightarrow> rows \<Rightarrow> (error + primary_key) \<times> rows" where
  "rows_createOne data opts db =
     (if data = [] then (Inl (Error ''empty payload''), db)
      else (Inr (KeyNumber (int (length db) + 1)),
            db @ [(KeyNumber (int (length db) + 1), data)]))"

fun rows_createMany :: "item list \<Rightarrow> unit option \<Rightarrow> rows \<Rightarrow> (error + primary_key list) \<times> rows" where
  "rows_createMany [] opts db = (Inr [], db)"
| "rows_createMany (d # ds) opts db =
     (case rows_createOne d opts db of
        (Inl err, _) \<Rightarrow> (Inl err, db)
      | (Inr k, db') \<Rightarrow>
          (case rows_createMany ds opts db' of
             (Inl err, _) \<Rightarrow> (Inl err, db)
           | (Inr ks, db'') \<Rightarrow> (Inr (k # ks), db'')))"

fun rows_updateMany ::
  "primary_key list \<Rightarrow> item \<Rightarrow> unit option \<Rightarrow> rows \<Rightarrow> (error + primary_key list) \<times> rows" where
  "rows_updateMany keys data opts db =
     (if set keys \<subseteq> fst ` set db
      then (Inr keys, map (\<lambda>(k, v). if k \<in> set keys then (k, data) else (k, v)) db)
      else (Inl (Error ''forbidden''), db))"

fun rows_deleteMany ::
  "primary_key list \<Rightarrow> unit option \<Rightarrow> rows \<Rightarrow> (error + primary_key list) \<times> rows" where
  "rows_deleteMany keys opts db =
     (if set keys \<subseteq> fst ` set db
      then (Inr keys, filter (\<lambda>(k, v). k \<notin> set keys) db)
      else (Inl (Error ''forbidden''), db))"

definition rows_service :: "(rows, unit) items_service" where
  "rows_service =
     \<lparr>super_createOne = rows_createOne, super_createMany = rows_createMany,
      super_updateMany = rows_updateMany, super_deleteMany = rows_deleteMany\<rparr>"

type_synonym deliveries = "(string \<times> payload) list"

fun list_publish :: "string \<Rightarrow> payload \<Rightarrow> deliveries \<Rightarrow> error option \<times> deliveries" where
  "list_publish channel p b = (None, b @ [(channel, p)])"

fun broken_publish :: "string \<Rightarrow> payload \<Rightarrow> deliveries \<Rightarrow> error option \<times> deliveries" where
  "broken_publish channel p b = (Some (Error ''bus unavailable''), b)"

definition list_messenger :: "deliveries messenger" where
  "list_messenger = \<lparr>publish = list_publish\<rparr>"

definition broken_messenger :: "deliveries messenger" where
  "broken_messenger = \<lparr>publish = broken_publish\<rparr>"

definition hook :: item where
  "hook = [(''name'', String ''build''), (''url'', String ''https://example.com/hook'')]"

definition one_hook :: "(rows, deliveries) world" where
  "one_hook = \<lparr>database = [(KeyNumber 1, hook)], bus = [], publish_calls = []\<rparr>"

section \<open>The paths through the middleware\<close>

lemmas effect_defs = start_def setHeader_def logger_warn_def store_read_def call_next_def
  res_json_def set_status_def status_header_def Let_def

lemma early_exit:
  "mutating_verb req \<or> CACHE_ENABLED e \<noteq> EnvBoolean True \<or> cache = None \<Longrightarrow>
   checkCacheMiddleware d e cache now req =
     \<lparr>headers = [], store_reads = [], warnings = [], ending = Next\<rparr>"
  by (auto simp: checkCacheMiddleware_def effect_defs)


lemma payload_error_exit:
  "\<not> mutating_verb req \<Longrightarrow> CACHE_ENABLED e = EnvBoolean True \<Longrightarrow> cache = Some c \<Longrightarrow>
   \<not> shouldSkipCache d req \<Longrightarrow> getCacheValue d c (getCacheKey d req) = Inl err \<Longrightarrow>
   checkCacheMiddleware d e cache now req =
     \<lparr>headers = status_header e ''MISS'', store_reads = [getCacheKey d req],
      warnings = [(err, read_failure (getCacheKey d req) err)], ending = Next\<rparr>"
  by (simp add: checkCacheMiddleware_def effect_defs)

lemma absent_exit:
  "\<not> mutating_verb req \<Longrightarrow> CACHE_ENABLED e = EnvBoolean True \<Longrightarrow> cache = Some c \<Longrightarrow>
   \<not> shouldSkipCache d req \<Longrightarrow> getCacheValue d c (getCacheKey d req) = Inr v \<Longrightarrow>
   \<not> truthy v \<Longrightarrow>
   checkCacheMiddleware d e cache now req =
     \<lparr>headers = status_header e ''MISS'', store_reads = [getCacheKey d req],
      warnings = [], ending = Next\<rparr>"
  by (simp add: checkCacheMiddleware_def effect_defs)

lemma expiry_error_exit:
  "\<not> mutating_verb req \<Longrightarrow> CACHE_ENABLED e = EnvBoolean True \<Longrightarrow> cache = Some c \<Longrightarrow>
   \<not> shouldSkipCache d req \<Longrightarrow> getCacheValue d c (getCacheKey d req) = Inr v \<Longrightarrow>
   truthy v \<Longrightarrow> getCacheValue d c (getCacheKey d req @ ''__expires_at'') = Inl err \<Longrightarrow>
   checkCacheMiddleware d e cache now req =
     \<lparr>headers = status_header e ''MISS'',
      store_reads = [getCacheKey d req, getCacheKey d req @ ''__expires_at''],
      warnings = [(err, read_failure (getCacheKey d req @ ''__expires_at'') err)],
      ending = Next\<rparr>"
  by (simp add: checkCacheMiddleware_def effect_defs)

lemma served_exit:
  "\<not> mutating_verb req \<Longrightarrow> CACHE_ENABLED e = EnvBoolean True \<Longrightarrow> cache = Some c \<Longrightarrow>
   \<not> shouldSkipCache d req \<Longrightarrow> getCacheValue d c (getCacheKey d req) = Inr v \<Longrightarrow>
   truthy v \<Longrightarrow> getCacheValue d c (getCacheKey d req @ ''__expires_at'') = Inr expiry \<Longrightarrow>
   checkCacheMiddleware d e cache now req =
     \<lparr>headers =
        [(''Cache-Control'',
          getCacheControlHeader d req (cacheTTL (optional_exp expiry) now) True True),
         (''Vary'', ''Origin, Cache-Control'')] @ status_header e ''HIT'',
      store_reads = [getCacheKey d req, getCacheKey d req @ ''__expires_at''],
      warnings = [], ending = Json v\<rparr>"
  by (simp add: checkCacheMiddleware_def effect_defs)

text \<open>The handler always ends, in \<open>next()\<close> or in \<open>res.json\<close>, and reads at most two keys.\<close>

lemma handler_ends:
  "ending (checkCacheMiddleware d e cache now req) = Next
   \<or> (\<exists>body. ending (checkCacheMiddleware d e cache now req) = Json body)"
  by (auto simp: checkCacheMiddleware_def effect_defs split: option.splits sum.splits)


text \<open>The handler answers from the cache on one path only.\<close>

lemma served_only_on_hit:
  assumes "ending (checkCacheMiddleware d e cache now req) = Json body"
  shows "\<exists>c expiry.
       \<not> mutating_verb req \<and> CACHE_ENABLED e = EnvBoolean True \<and> cache = Some c
       \<and> \<not> shouldSkipCache d req
       \<and> getCacheValue d c (getCacheKey d req) = Inr body \<and> truthy body
       \<and> getCacheValue d c (getCacheKey d req @ ''__expires_at'') = Inr expiry"
  using assms
  by (auto simp: checkCacheMiddleware_def effect_defs split: if_splits option.splits sum.splits)

text \<open>Facts about the example requests, stores and settings.\<close>

lemma get_items_not_mutating: "\<not> mutating_verb get_items"
  unfolding mutating_verb_def get_items_def by code_simp

lemma get_items_no_store_not_mutating: "\<not> mutating_verb get_items_no_store"
  unfolding mutating_verb_def get_items_no_store_def get_items_def by code_simp

lemma post_items_mutating: "mutating_verb post_items"
  unfolding mutating_verb_def post_items_def get_items_def by code_simp

lemma post_items_no_store_mutating: "mutating_verb post_items_no_store"
  unfolding mutating_verb_def post_items_no_store_def post_items_def get_items_def by code_simp



lemma example_requests [simp]:
  "path get_items = ''/items''" "cache_control get_items = None"
  "path get_items_no_store = ''/items''" "cache_control get_items_no_store = Some ''no-store''"
  "path post_no_url = ''/items''" "cache_control post_no_url = None"
  "originalUrl post_no_url = None"
  "path post_no_url_no_store = ''/items''" "cache_control post_no_url_no_store = Some ''no-store''"
  "originalUrl post_no_url_no_store = None"
  "path post_items_no_store = ''/items''" "cache_control post_items_no_store = Some ''no-store''"
  by (simp_all add: get_items_def get_items_no_store_def post_no_url_def post_no_url_no_store_def
        post_items_def post_items_no_store_def)

lemma example_settings [simp]:
  "CACHE_ENABLED status_env = EnvBoolean True"
  "CACHE_STATUS_HEADER status_env = EnvString ''X-Cache''"
  "CACHE_ENABLED off_env = EnvString ''true''"
  "status_header status_env v = [(''X-Cache'', v)]"
  by (simp_all add: status_env_def off_env_def status_header_def)

lemma example_deps [simp]:
  "shouldSkipCache table_deps = no_store_shouldSkipCache"
  "getCacheKey table_deps = path_getCacheKey"
  "getCacheValue table_deps = table_getCacheValue"
  "getCacheControlHeader table_deps = probe_getCacheControlHeader"
  by (simp_all add: table_deps_def)

lemma example_reads [simp]:
  "table_getCacheValue fresh_store ''/items'' = Inr items_body"
  "table_getCacheValue fresh_store ''/items__expires_at'' = Inr (Object [(''exp'', Number 61000)])"
  "table_getCacheValue stale_store ''/items'' = Inr items_body"
  "table_getCacheValue stale_store ''/items__expires_at'' = Inr (Object [(''exp'', Number 500)])"
  "table_getCacheValue epoch_store ''/items'' = Inr items_body"
  "table_getCacheValue epoch_store ''/items__expires_at'' = Inr (Object [(''exp'', Number 0)])"
  "table_getCacheValue no_expiry_store ''/items'' = Inr items_body"
  "table_getCacheValue no_expiry_store ''/items__expires_at'' = Inr Undefined"
  "table_getCacheValue empty_store ''/items'' = Inr Undefined"
  "table_getCacheValue down_store ''/items'' = Inl (Error ''ECONNREFUSED'')"
  "table_getCacheValue half_down_store ''/items'' = Inr items_body"
  "table_getCacheValue half_down_store ''/items__expires_at'' = Inl (Error ''ETIMEDOUT'')"
  by (simp_all add: table_getCacheValue_def fresh_store_def stale_store_def epoch_store_def
        no_expiry_store_def empty_store_def down_store_def half_down_store_def)

lemma items_body_truthy [simp]: "truthy items_body"
  by (simp add: items_body_def)

lemma example_queries [simp]:
  "req_method items_a_b = ''GET''" "req_method items_b_a = ''GET''"
  "path items_a_b = ''/items''" "path items_b_a = ''/items''"
  "caller items_a_b = ''alice''" "caller items_b_a = ''alice''"
  "query items_a_b = [(''a'', ''1''), (''b'', ''2'')]"
  "query items_b_a = [(''b'', ''2''), (''a'', ''1'')]"
  "path users_me = ''/users/me''" "caller users_me = ''alice''"
  by (simp_all add: items_a_b_def items_b_a_def users_me_def get_items_def)

section \<open>The effects of the webhooks service\<close>

lemma publish_and_return_calls:
  "publish_calls (snd (publish_and_return m result w)) = publish_calls w @ [(''webhooks'', reload)]"
  by (simp add: publish_and_return_def messenger_publish_def split: prod.splits option.splits)

lemma publish_and_return_bus:
  "bus (snd (publish_and_return m result w)) = snd (publish m ''webhooks'' reload (bus w))"
  by (simp add: publish_and_return_def messenger_publish_def split: prod.splits option.splits)

lemma publish_and_return_database:
  "database (snd (publish_and_return m result w)) = database w"
  by (simp add: publish_and_return_def messenger_publish_def split: prod.splits option.splits)

lemma publish_and_return_result:
  "fst (publish_and_return m result w) =
     (case fst (publish m ''webhooks'' reload (bus w)) of None \<Rightarrow> Inr result | Some err \<Rightarrow> Inl err)"
  by (simp add: publish_and_return_def messenger_publish_def split: prod.splits option.splits)

lemmas publish_and_return_simps =
  publish_and_return_calls publish_and_return_bus publish_and_return_database
  publish_and_return_result

lemmas service_defs = createOne_def createMany_def updateMany_def deleteMany_def

lemma publish_returns_result:
  "fst (publish m ''webhooks'' reload (bus w)) = None \<Longrightarrow>
   fst (case r of (Inl err, db) \<Rightarrow> (Inl err, w\<lparr>database := db\<rparr>)
         | (Inr result, db) \<Rightarrow> publish_and_return m result (w\<lparr>database := db\<rparr>)) = fst r"
  by (cases r) (auto simp: publish_and_return_result split: sum.splits)

lemma publish_throws_result:
  "fst (publish m ''webhooks'' reload (bus w)) = Some e \<Longrightarrow> fst r = Inr k \<Longrightarrow>
   (case r of (Inl err, db) \<Rightarrow> (Inl err, w\<lparr>database := db\<rparr>)
         | (Inr result, db) \<Rightarrow> publish_and_return m result (w\<lparr>database := db\<rparr>)) = p \<Longrightarrow>
   fst p = Inl e \<and> database (snd p) = snd r"
  by (cases r) (auto simp: publish_and_return_result publish_and_return_database)

lemma rows_runs [simp]:
  "database one_hook = [(KeyNumber 1, hook)]" "publish_calls one_hook = []" "bus one_hook = []"
  "hook \<noteq> []"
  "super_createOne rows_service = rows_createOne"
  "super_createMany rows_service = rows_createMany"
  "super_updateMany rows_service = rows_updateMany"
  "super_deleteMany rows_service = rows_deleteMany"
  "publish list_messenger = list_publish"
  "publish broken_messenger = broken_publish"
  by (simp_all add: one_hook_def hook_def rows_service_def list_messenger_def broken_messenger_def)

section \<open>The derived key\<close>

lemma canonical_query_mset:
  "mset q1 = mset q2 \<Longrightarrow> canonical_query q1 = canonical_query q2"
proof -
  assume "mset q1 = mset q2"
  then have "sort q1 = sort q2"
    by (metis properties_for_sort mset_sort sorted_sort)
  then show ?thesis by (simp add: canonical_query_def)
qed

section \<open>The claims about the cache middleware\<close>

text \<open>
  C1 as stated: a payload that is found while its expiry record is absent, or while the
  recorded time minus the current time is not positive, is not served but handled as a
  miss. The handler does otherwise. With the clock at 1000, a payload whose record
  says 500, and a payload with no record at all, are both answered from the cache with
  status \<open>HIT\<close>; the miss, for comparison, is what the empty store gives.
\<close>

theorem stale_entry_is_served_counterexample:
  "checkCacheMiddleware table_deps status_env (Some stale_store) 1000 get_items =
     \<lparr>headers = [(''Cache-Control'', ''max-age<0''), (''Vary'', ''Origin, Cache-Control''),
                 (''X-Cache'', ''HIT'')],
      store_reads = [''/items'', ''/items__expires_at''], warnings = [],
      ending = Json items_body\<rparr>
   \<and> checkCacheMiddleware table_deps status_env (Some no_expiry_store) 1000 get_items =
     \<lparr>headers = [(''Cache-Control'', ''no-cache''), (''Vary'', ''Origin, Cache-Control''),
                 (''X-Cache'', ''HIT'')],
      store_reads = [''/items'', ''/items__expires_at''], warnings = [],
      ending = Json items_body\<rparr>
   \<and> checkCacheMiddleware table_deps status_env (Some empty_store) 1000 get_items =
     \<lparr>headers = [(''X-Cache'', ''MISS'')], store_reads = [''/items''], warnings = [],
      ending = Next\<rparr>
   \<and> ending (checkCacheMiddleware table_deps status_env (Some stale_store) 1000 get_items) \<noteq> Next
   \<and> ending (checkCacheMiddleware table_deps status_env (Some no_expiry_store) 1000 get_items)
       \<noteq> Next"
proof -
  have stale: "checkCacheMiddleware table_deps status_env (Some stale_store) 1000 get_items =
     \<lparr>headers = [(''Cache-Control'', ''max-age<0''), (''Vary'', ''Origin, Cache-Control''),
                 (''X-Cache'', ''HIT'')],
      store_reads = [''/items'', ''/items__expires_at''], warnings = [],
      ending = Json items_body\<rparr>"
    by (subst served_exit [where c = stale_store and v = items_body
          and expiry = "Object [(''exp'', Number 500)]"])
       (simp_all add: get_items_not_mutating cacheTTL_def)
  have none: "checkCacheMiddleware table_deps status_env (Some no_expiry_store) 1000 get_items =
     \<lparr>headers = [(''Cache-Control'', ''no-cache''), (''Vary'', ''Origin, Cache-Control''),
                 (''X-Cache'', ''HIT'')],
      store_reads = [''/items'', ''/items__expires_at''], warnings = [],
      ending = Json items_body\<rparr>"
    by (subst served_exit [where c = no_expiry_store and v = items_body and expiry = Undefined])
       (simp_all add: get_items_not_mutating cacheTTL_def)
  have miss: "checkCacheMiddleware table_deps status_env (Some empty_store) 1000 get_items =
     \<lparr>headers = [(''X-Cache'', ''MISS'')], store_reads = [''/items''], warnings = [],
      ending = Next\<rparr>"
    by (subst absent_exit [where c = empty_store and v = Undefined])
       (simp_all add: get_items_not_mutating)
  from stale none miss show ?thesis by simp
qed

text \<open>
  C1, amended. A payload that is found is served from the cache with status \<open>HIT\<close>
  whether its expiry record is absent, in the past or in the future, as long as the
  read of the record does not fail. The record decides only the TTL handed to
  \<open>getCacheControlHeader\<close>: undefined when the record or its \<open>exp\<close> is missing or
  falsy, and \<open>exp - now\<close>, be it positive, zero or negative, when \<open>exp\<close> is a number
  other than 0.
\<close>

theorem found_payload_is_served_whatever_the_expiry:
  assumes "\<not> mutating_verb req" and "CACHE_ENABLED e = EnvBoolean True" and "cache = Some c"
    and "\<not> shouldSkipCache d req"
    and "getCacheValue d c (getCacheKey d req) = Inr body" and "truthy body"
    and "getCacheValue d c (getCacheKey d req @ ''__expires_at'') = Inr expiry"
  shows
    "ending (checkCacheMiddleware d e cache now req) = Json body
     \<and> headers (checkCacheMiddleware d e cache now req) =
         [(''Cache-Control'',
           getCacheControlHeader d req (cacheTTL (optional_exp expiry) now) True True),
          (''Vary'', ''Origin, Cache-Control'')] @ status_header e ''HIT''
     \<and> (\<not> truthy (optional_exp expiry) \<longrightarrow>
        checkCacheMiddleware d e cache now req =
          \<lparr>headers =
             [(''Cache-Control'', getCacheControlHeader d req TTL_undefined True True),
              (''Vary'', ''Origin, Cache-Control'')] @ status_header e ''HIT'',
           store_reads = [getCacheKey d req, getCacheKey d req @ ''__expires_at''],
           warnings = [], ending = Json body\<rparr>)
     \<and> (optional_exp expiry = Number n \<and> n \<noteq> 0 \<longrightarrow>
        checkCacheMiddleware d e cache now req =
          \<lparr>headers =
             [(''Cache-Control'', getCacheControlHeader d req (TTL_ms (n - now)) True True),
              (''Vary'', ''Origin, Cache-Control'')] @ status_header e ''HIT'',
           store_reads = [getCacheKey d req, getCacheKey d req @ ''__expires_at''],
           warnings = [], ending = Json body\<rparr>)"
  using served_exit [OF assms, of now] by (simp add: cacheTTL_def)

theorem found_payload_is_served_whatever_the_expiry_witness:
  "\<not> mutating_verb get_items \<and> CACHE_ENABLED status_env = EnvBoolean True
   \<and> \<not> shouldSkipCache table_deps get_items
   \<and> getCacheValue table_deps no_expiry_store (getCacheKey table_deps get_items) = Inr items_body
   \<and> truthy items_body
   \<and> getCacheValue table_deps no_expiry_store (getCacheKey table_deps get_items @ ''__expires_at'')
       = Inr Undefined
   \<and> \<not> truthy (optional_exp Undefined)
   \<and> checkCacheMiddleware table_deps status_env (Some no_expiry_store) 1000 get_items =
       \<lparr>headers = [(''Cache-Control'', ''no-cache''), (''Vary'', ''Origin, Cache-Control''),
                   (''X-Cache'', ''HIT'')],
        store_reads = [''/items'', ''/items__expires_at''], warnings = [],
        ending = Json items_body\<rparr>
   \<and> getCacheValue table_deps stale_store (getCacheKey table_deps get_items @ ''__expires_at'')
       = Inr (Object [(''exp'', Number 500)])
   \<and> optional_exp (Object [(''exp'', Number 500)]) = Number 500 \<and> (500::int) \<noteq> 0
   \<and> checkCacheMiddleware table_deps status_env (Some stale_store) 1000 get_items =
       \<lparr>headers = [(''Cache-Control'', ''max-age<0''), (''Vary'', ''Origin, Cache-Control''),
                   (''X-Cache'', ''HIT'')],
        store_reads = [''/items'', ''/items__expires_at''], warnings = [],
        ending = Json items_body\<rparr>
   \<and> getCacheValue table_deps fresh_store (getCacheKey table_deps get_items @ ''__expires_at'')
       = Inr (Object [(''exp'', Number 61000)])
   \<and> optional_exp (Object [(''exp'', Number 61000)]) = Number 61000 \<and> (61000::int) \<noteq> 0
   \<and> checkCacheMiddleware table_deps status_env (Some fresh_store) 1000 get_items =
       \<lparr>headers = [(''Cache-Control'', ''max-age>0''), (''Vary'', ''Origin, Cache-Control''),
                   (''X-Cache'', ''HIT'')],
        store_reads = [''/items'', ''/items__expires_at''], warnings = [],
        ending = Json items_body\<rparr>"
  using
    found_payload_is_served_whatever_the_expiry [where req = get_items and e = status_env
      and cache = "Some no_expiry_store" and c = no_expiry_store and d = table_deps
      and body = items_body and expiry = Undefined and now = 1000 and n = 500]
    found_payload_is_served_whatever_the_expiry [where req = get_items and e = status_env
      and cache = "Some stale_store" and c = stale_store and d = table_deps
      and body = items_body and expiry = "Object [(''exp'', Number 500)]" and now = 1000
      and n = 500]
    found_payload_is_served_whatever_the_expiry [where req = get_items and e = status_env
      and cache = "Some fresh_store" and c = fresh_store and d = table_deps
      and body = items_body and expiry = "Object [(''exp'', Number 61000)]" and now = 1000
      and n = 61000]
  by (simp add: get_items_not_mutating)

text \<open>
  C2. When a read of the store fails, be it the read of the payload or the read of the
  expiry record, the handler logs one warning that names the key and the message of
  the error, sets the status header to \<open>MISS\<close> if that header is configured, and calls
  \<open>next\<close>: the request goes on to the downstream handlers and the error goes nowhere
  else.
\<close>

theorem store_read_error_is_a_miss:
  assumes "\<not> mutating_verb req" and "CACHE_ENABLED e = EnvBoolean True" and "cache = Some c"
    and "\<not> shouldSkipCache d req"
  shows
    "(getCacheValue d c (getCacheKey d req) = Inl err \<longrightarrow>
        checkCacheMiddleware d e cache now req =
          \<lparr>headers = status_header e ''MISS'', store_reads = [getCacheKey d req],
           warnings = [(err, read_failure (getCacheKey d req) err)], ending = Next\<rparr>)
     \<and> (getCacheValue d c (getCacheKey d req) = Inr v \<and> truthy v
          \<and> getCacheValue d c (getCacheKey d req @ ''__expires_at'') = Inl err \<longrightarrow>
        checkCacheMiddleware d e cache now req =
          \<lparr>headers = status_header e ''MISS'',
           store_reads = [getCacheKey d req, getCacheKey d req @ ''__expires_at''],
           warnings = [(err, read_failure (getCacheKey d req @ ''__expires_at'') err)],
           ending = Next\<rparr>)"
  using assms by (simp add: payload_error_exit expiry_error_exit)

theorem store_read_error_is_a_miss_witness:
  "\<not> mutating_verb get_items \<and> CACHE_ENABLED status_env = EnvBoolean True
   \<and> \<not> shouldSkipCache table_deps get_items
   \<and> getCacheValue table_deps down_store (getCacheKey table_deps get_items) =
       Inl (Error ''ECONNREFUSED'')
   \<and> checkCacheMiddleware table_deps status_env (Some down_store) 1000 get_items =
       \<lparr>headers = [(''X-Cache'', ''MISS'')], store_reads = [''/items''],
        warnings = [(Error ''ECONNREFUSED'', ''[cache] Couldn't read key /items. ECONNREFUSED'')],
        ending = Next\<rparr>
   \<and> getCacheValue table_deps half_down_store (getCacheKey table_deps get_items) = Inr items_body
   \<and> truthy items_body
   \<and> getCacheValue table_deps half_down_store (getCacheKey table_deps get_items @ ''__expires_at'') =
       Inl (Error ''ETIMEDOUT'')
   \<and> checkCacheMiddleware table_deps status_env (Some half_down_store) 1000 get_items =
       \<lparr>headers = [(''X-Cache'', ''MISS'')], store_reads = [''/items'', ''/items__expires_at''],
        warnings =
          [(Error ''ETIMEDOUT'', ''[cache] Couldn't read key /items__expires_at. ETIMEDOUT'')],
        ending = Next\<rparr>"
  using
    store_read_error_is_a_miss [where req = get_items and e = status_env and c = down_store
      and cache = "Some down_store" and d = table_deps and now = 1000
      and err = "Error ''ECONNREFUSED''" and v = items_body]
    store_read_error_is_a_miss [where req = get_items and e = status_env and c = half_down_store
      and cache = "Some half_down_store" and d = table_deps and now = 1000
      and err = "Error ''ETIMEDOUT''" and v = items_body]
  by (simp add: get_items_not_mutating read_failure_def)

text \<open>
  C4. The handler answers with \<open>res.json\<close> only on the path where a payload is found
  and both reads succeed, and on that path the body is the stored payload, \<open>next\<close> is
  not called (the handler ends in \<open>res.json\<close>), and the headers it has set are, in
  this order: \<open>Cache-Control\<close> with what \<open>getCacheControlHeader\<close> makes of the
  remaining TTL (and of \<open>true, true\<close>), \<open>Vary\<close> with \<open>Origin, Cache-Control\<close>, and
  the status header with \<open>HIT\<close> if that header is configured. The remaining TTL is
  the stored \<open>exp\<close> minus the current time for an \<open>exp\<close> other than 0, and undefined
  when \<open>exp\<close> is missing or falsy.
\<close>

theorem served_from_cache_effects:
  "(ending (checkCacheMiddleware d e cache now req) = Json body \<longrightarrow>
      (\<exists>c expiry.
         \<not> mutating_verb req \<and> CACHE_ENABLED e = EnvBoolean True \<and> cache = Some c
         \<and> \<not> shouldSkipCache d req
         \<and> getCacheValue d c (getCacheKey d req) = Inr body \<and> truthy body
         \<and> getCacheValue d c (getCacheKey d req @ ''__expires_at'') = Inr expiry))
   \<and> (\<not> mutating_verb req \<and> CACHE_ENABLED e = EnvBoolean True \<and> cache = Some c
        \<and> \<not> shouldSkipCache d req
        \<and> getCacheValue d c (getCacheKey d req) = Inr body \<and> truthy body
        \<and> getCacheValue d c (getCacheKey d req @ ''__expires_at'') = Inr expiry \<longrightarrow>
      checkCacheMiddleware d e cache now req =
        \<lparr>headers =
           [(''Cache-Control'',
             getCacheControlHeader d req (cacheTTL (optional_exp expiry) now) True True),
            (''Vary'', ''Origin, Cache-Control'')]
           @ (if env_truthy (CACHE_STATUS_HEADER e)
              then [(env_toString (CACHE_STATUS_HEADER e), ''HIT'')] else []),
         store_reads = [getCacheKey d req, getCacheKey d req @ ''__expires_at''],
         warnings = [], ending = Json body\<rparr>
      \<and> (optional_exp expiry = Number n \<and> n \<noteq> 0 \<longrightarrow>
           hd (headers (checkCacheMiddleware d e cache now req)) =
             (''Cache-Control'', getCacheControlHeader d req (TTL_ms (n - now)) True True))
      \<and> (\<not> truthy (optional_exp expiry) \<longrightarrow>
           hd (headers (checkCacheMiddleware d e cache now req)) =
             (''Cache-Control'', getCacheControlHeader d req TTL_undefined True True)))"
proof -
  have conv: "\<exists>c expiry.
         \<not> mutating_verb req \<and> CACHE_ENABLED e = EnvBoolean True \<and> cache = Some c
         \<and> \<not> shouldSkipCache d req
         \<and> getCacheValue d c (getCacheKey d req) = Inr body \<and> truthy body
         \<and> getCacheValue d c (getCacheKey d req @ ''__expires_at'') = Inr expiry"
    if "ending (checkCacheMiddleware d e cache now req) = Json body"
    using that by (rule served_only_on_hit)
  have run: "checkCacheMiddleware d e cache now req =
        \<lparr>headers =
           [(''Cache-Control'',
             getCacheControlHeader d req (cacheTTL (optional_exp expiry) now) True True),
            (''Vary'', ''Origin, Cache-Control'')]
           @ (if env_truthy (CACHE_STATUS_HEADER e)
              then [(env_toString (CACHE_STATUS_HEADER e), ''HIT'')] else []),
         store_reads = [getCacheKey d req, getCacheKey d req @ ''__expires_at''],
         warnings = [], ending = Json body\<rparr>"
    if "\<not> mutating_verb req \<and> CACHE_ENABLED e = EnvBoolean True \<and> cache = Some c
        \<and> \<not> shouldSkipCache d req
        \<and> getCacheValue d c (getCacheKey d req) = Inr body \<and> truthy body
        \<and> getCacheValue d c (getCacheKey d req @ ''__expires_at'') = Inr expiry"
    using that by (simp add: served_exit status_header_def)
  have number: "cacheTTL (optional_exp expiry) now = TTL_ms (n - now)"
    if "optional_exp expiry = Number n \<and> n \<noteq> 0"
    using that by (simp add: cacheTTL_def)
  have falsy: "cacheTTL (optional_exp expiry) now = TTL_undefined"
    if "\<not> truthy (optional_exp expiry)"
    using that by (simp add: cacheTTL_def)
  show ?thesis
  proof (intro conjI impI)
    assume "ending (checkCacheMiddleware d e cache now req) = Json body"
    then show "\<exists>c expiry.
         \<not> mutating_verb req \<and> CACHE_ENABLED e = EnvBoolean True \<and> cache = Some c
         \<and> \<not> shouldSkipCache d req
         \<and> getCacheValue d c (getCacheKey d req) = Inr body \<and> truthy body
         \<and> getCacheValue d c (getCacheKey d req @ ''__expires_at'') = Inr expiry"
      by (rule conv)
  next
    assume a: "\<not> mutating_verb req \<and> CACHE_ENABLED e = EnvBoolean True \<and> cache = Some c
        \<and> \<not> shouldSkipCache d req
        \<and> getCacheValue d c (getCacheKey d req) = Inr body \<and> truthy body
        \<and> getCacheValue d c (getCacheKey d req @ ''__expires_at'') = Inr expiry"
    then show "checkCacheMiddleware d e cache now req =
        \<lparr>headers =
           [(''Cache-Control'',
             getCacheControlHeader d req (cacheTTL (optional_exp expiry) now) True True),
            (''Vary'', ''Origin, Cache-Control'')]
           @ (if env_truthy (CACHE_STATUS_HEADER e)
              then [(env_toString (CACHE_STATUS_HEADER e), ''HIT'')] else []),
         store_reads = [getCacheKey d req, getCacheKey d req @ ''__expires_at''],
         warnings = [], ending = Json body\<rparr>"
      by (rule run)
    {
      assume "optional_exp expiry = Number n \<and> n \<noteq> 0"
      then have "cacheTTL (optional_exp expiry) now = TTL_ms (n - now)"
        by (rule number)
      then show "hd (headers (checkCacheMiddleware d e cache now req)) =
             (''Cache-Control'', getCacheControlHeader d req (TTL_ms (n - now)) True True)"
        by (simp add: run [OF a])
    }
    {
      assume "\<not> truthy (optional_exp expiry)"
      then have "cacheTTL (optional_exp expiry) now = TTL_undefined"
        by (rule falsy)
      then show "hd (headers (checkCacheMiddleware d e cache now req)) =
             (''Cache-Control'', getCacheControlHeader d req TTL_undefined True True)"
        by (simp add: run [OF a])
    }
  qed
qed

theorem served_from_cache_effects_witness:
  "ending (checkCacheMiddleware table_deps status_env (Some fresh_store) 1000 get_items) =
     Json items_body
   \<and> (\<exists>c expiry.
         \<not> mutating_verb get_items \<and> CACHE_ENABLED status_env = EnvBoolean True
         \<and> Some fresh_store = Some c \<and> \<not> shouldSkipCache table_deps get_items
         \<and> getCacheValue table_deps c (getCacheKey table_deps get_items) = Inr items_body
         \<and> truthy items_body
         \<and> getCacheValue table_deps c (getCacheKey table_deps get_items @ ''__expires_at'') =
             Inr expiry)
   \<and> getCacheValue table_deps fresh_store (getCacheKey table_deps get_items @ ''__expires_at'') =
       Inr (Object [(''exp'', Number 61000)])
   \<and> optional_exp (Object [(''exp'', Number 61000)]) = Number 61000 \<and> (61000::int) \<noteq> 0
   \<and> checkCacheMiddleware table_deps status_env (Some fresh_store) 1000 get_items =
       \<lparr>headers = [(''Cache-Control'', ''max-age>0''), (''Vary'', ''Origin, Cache-Control''),
                   (''X-Cache'', ''HIT'')],
        store_reads = [''/items'', ''/items__expires_at''], warnings = [],
        ending = Json items_body\<rparr>
   \<and> hd (headers (checkCacheMiddleware table_deps status_env (Some fresh_store) 1000 get_items)) =
       (''Cache-Control'', probe_getCacheControlHeader get_items (TTL_ms 60000) True True)
   \<and> hd (headers (checkCacheMiddleware table_deps status_env (Some fresh_store) 61000 get_items))
       = (''Cache-Control'', ''max-age=0'')
   \<and> hd (headers (checkCacheMiddleware table_deps status_env (Some fresh_store) 70000 get_items))
       = (''Cache-Control'', ''max-age<0'')
   \<and> getCacheValue table_deps no_expiry_store (getCacheKey table_deps get_items @ ''__expires_at'')
       = Inr Undefined
   \<and> \<not> truthy (optional_exp Undefined)
   \<and> hd (headers
         (checkCacheMiddleware table_deps status_env (Some no_expiry_store) 1000 get_items))
       = (''Cache-Control'', ''no-cache'')"
proof -
  have served:
    "ending (checkCacheMiddleware table_deps status_env (Some fresh_store) 1000 get_items) =
       Json items_body"
    by (subst served_exit [where c = fresh_store and v = items_body
          and expiry = "Object [(''exp'', Number 61000)]"])
       (simp_all add: get_items_not_mutating)
  from served
    served_from_cache_effects [where req = get_items and e = status_env
      and cache = "Some fresh_store" and c = fresh_store and d = table_deps
      and body = items_body and expiry = "Object [(''exp'', Number 61000)]" and now = 1000
      and n = 61000]
    served_from_cache_effects [where req = get_items and e = status_env
      and cache = "Some fresh_store" and c = fresh_store and d = table_deps
      and body = items_body and expiry = "Object [(''exp'', Number 61000)]" and now = 61000
      and n = 61000]
    served_from_cache_effects [where req = get_items and e = status_env
      and cache = "Some fresh_store" and c = fresh_store and d = table_deps
      and body = items_body and expiry = "Object [(''exp'', Number 61000)]" and now = 70000
      and n = 61000]
    served_from_cache_effects [where req = get_items and e = status_env
      and cache = "Some no_expiry_store" and c = no_expiry_store and d = table_deps
      and body = items_body and expiry = Undefined and now = 1000 and n = 0]
  show ?thesis
    by (simp add: get_items_not_mutating cacheTTL_def)
qed

text \<open>
  C5 as stated: every request that carries the bypass signal yields status \<open>MISS\<close>.
  The three early exits come before the skip policy is asked: a POST outside
  \<open>/graphql\<close> that carries \<open>no-store\<close>, and a GET that carries it while the cache is
  disabled or has no store, are passed on with no status header although one is
  configured.
\<close>

theorem bypass_before_skip_check_counterexample:
  "shouldSkipCache table_deps post_items_no_store
   \<and> env_truthy (CACHE_STATUS_HEADER status_env)
   \<and> checkCacheMiddleware table_deps status_env (Some fresh_store) 1000 post_items_no_store =
       \<lparr>headers = [], store_reads = [], warnings = [], ending = Next\<rparr>
   \<and> shouldSkipCache table_deps get_items_no_store
   \<and> env_truthy (CACHE_STATUS_HEADER off_env)
   \<and> checkCacheMiddleware table_deps off_env (Some fresh_store) 1000 get_items_no_store =
       \<lparr>headers = [], store_reads = [], warnings = [], ending = Next\<rparr>
   \<and> checkCacheMiddleware table_deps status_env None 1000 get_items_no_store =
       \<lparr>headers = [], store_reads = [], warnings = [], ending = Next\<rparr>"
  using
    early_exit [where req = post_items_no_store and e = status_env and cache = "Some fresh_store"
      and d = table_deps and now = 1000]
    early_exit [where req = get_items_no_store and e = off_env and cache = "Some fresh_store"
      and d = table_deps and now = 1000]
    early_exit [where req = get_items_no_store and e = status_env and cache = None
      and d = table_deps and now = 1000]
  by (simp add: post_items_no_store_mutating off_env_def)

text \<open>
  C5, amended. A request for which \<open>shouldSkipCache\<close> holds is passed on with \<open>next\<close>
  and nothing is read from the store, whatever the store holds. Where the handler
  gets as far as asking \<open>shouldSkipCache\<close> (no mutating verb, cache enabled, store
  present) the status header, if configured, is set to \<open>MISS\<close>; where the request
  leaves by one of the three earlier exits no header is set.
\<close>

theorem bypass_signal_reads_nothing:
  assumes "shouldSkipCache d req"
  shows
    "ending (checkCacheMiddleware d e cache now req) = Next
     \<and> store_reads (checkCacheMiddleware d e cache now req) = []
     \<and> warnings (checkCacheMiddleware d e cache now req) = []
     \<and> (\<not> mutating_verb req \<and> CACHE_ENABLED e = EnvBoolean True \<and> cache = Some c \<longrightarrow>
          headers (checkCacheMiddleware d e cache now req) = status_header e ''MISS'')
     \<and> (mutating_verb req \<or> CACHE_ENABLED e \<noteq> EnvBoolean True \<or> cache = None \<longrightarrow>
          headers (checkCacheMiddleware d e cache now req) = [])"
  using assms
  by (auto simp: checkCacheMiddleware_def effect_defs split: option.splits)

theorem bypass_signal_reads_nothing_witness:
  "shouldSkipCache table_deps get_items_no_store
   \<and> getCacheValue table_deps fresh_store (getCacheKey table_deps get_items_no_store) =
       Inr items_body
   \<and> \<not> mutating_verb get_items_no_store \<and> CACHE_ENABLED status_env = EnvBoolean True
   \<and> ending (checkCacheMiddleware table_deps status_env (Some fresh_store) 1000 get_items_no_store)
       = Next
   \<and> store_reads
        (checkCacheMiddleware table_deps status_env (Some fresh_store) 1000 get_items_no_store) = []
   \<and> headers (checkCacheMiddleware table_deps status_env (Some fresh_store) 1000 get_items_no_store)
       = [(''X-Cache'', ''MISS'')]
   \<and> shouldSkipCache table_deps post_items_no_store \<and> mutating_verb post_items_no_store
   \<and> store_reads
        (checkCacheMiddleware table_deps status_env (Some fresh_store) 1000 post_items_no_store) = []
   \<and> headers
        (checkCacheMiddleware table_deps status_env (Some fresh_store) 1000 post_items_no_store) = []"
  using
    bypass_signal_reads_nothing [where d = table_deps and req = get_items_no_store
      and e = status_env and cache = "Some fresh_store" and now = 1000 and c = fresh_store]
    bypass_signal_reads_nothing [where d = table_deps and req = post_items_no_store
      and e = status_env and cache = "Some fresh_store" and now = 1000 and c = fresh_store]
  by (simp add: get_items_no_store_not_mutating post_items_no_store_mutating)






text \<open>
  C10. On the three earliest exits (a verb other than GET outside \<open>/graphql\<close>,
  \<open>CACHE_ENABLED\<close> not \<open>true\<close>, no cache store) the handler calls \<open>next\<close> and does
  nothing else: no header is set, not even the status header when it is configured.
  On the later exits that miss (explicit skip, failed read, no payload) the status
  header, when configured, is set to \<open>MISS\<close>.
\<close>

theorem early_pass_through_sets_no_header:
  "(mutating_verb req \<or> CACHE_ENABLED e \<noteq> EnvBoolean True \<or> cache = None \<longrightarrow>
      checkCacheMiddleware d e cache now req =
        \<lparr>headers = [], store_reads = [], warnings = [], ending = Next\<rparr>)
   \<and> (\<not> mutating_verb req \<and> CACHE_ENABLED e = EnvBoolean True \<and> cache = Some c
        \<and> env_truthy (CACHE_STATUS_HEADER e)
        \<and> (shouldSkipCache d req
            \<or> (\<exists>err. getCacheValue d c (getCacheKey d req) = Inl err)
            \<or> (\<exists>v. getCacheValue d c (getCacheKey d req) = Inr v \<and> \<not> truthy v)
            \<or> (\<exists>v err. getCacheValue d c (getCacheKey d req) = Inr v \<and> truthy v
                  \<and> getCacheValue d c (getCacheKey d req @ ''__expires_at'') = Inl err)) \<longrightarrow>
      headers (checkCacheMiddleware d e cache now req) =
        [(env_toString (CACHE_STATUS_HEADER e), ''MISS'')]
      \<and> ending (checkCacheMiddleware d e cache now req) = Next)"
proof (intro conjI impI)
  assume "mutating_verb req \<or> CACHE_ENABLED e \<noteq> EnvBoolean True \<or> cache = None"
  then show "checkCacheMiddleware d e cache now req =
        \<lparr>headers = [], store_reads = [], warnings = [], ending = Next\<rparr>"
    by (rule early_exit)
next
  assume a: "\<not> mutating_verb req \<and> CACHE_ENABLED e = EnvBoolean True \<and> cache = Some c
        \<and> env_truthy (CACHE_STATUS_HEADER e)
        \<and> (shouldSkipCache d req
            \<or> (\<exists>err. getCacheValue d c (getCacheKey d req) = Inl err)
            \<or> (\<exists>v. getCacheValue d c (getCacheKey d req) = Inr v \<and> \<not> truthy v)
            \<or> (\<exists>v err. getCacheValue d c (getCacheKey d req) = Inr v \<and> truthy v
                  \<and> getCacheValue d c (getCacheKey d req @ ''__expires_at'') = Inl err))"
  then show "headers (checkCacheMiddleware d e cache now req) =
        [(env_toString (CACHE_STATUS_HEADER e), ''MISS'')]"
    by (auto simp: checkCacheMiddleware_def effect_defs split: sum.splits)
  from a show "ending (checkCacheMiddleware d e cache now req) = Next"
    by (auto simp: checkCacheMiddleware_def effect_defs split: sum.splits)
qed

theorem early_pass_through_sets_no_header_witness:
  "mutating_verb post_items
   \<and> checkCacheMiddleware table_deps status_env (Some fresh_store) 1000 post_items =
       \<lparr>headers = [], store_reads = [], warnings = [], ending = Next\<rparr>
   \<and> CACHE_ENABLED off_env \<noteq> EnvBoolean True
   \<and> checkCacheMiddleware table_deps off_env (Some fresh_store) 1000 get_items =
       \<lparr>headers = [], store_reads = [], warnings = [], ending = Next\<rparr>
   \<and> checkCacheMiddleware table_deps status_env None 1000 get_items =
       \<lparr>headers = [], store_reads = [], warnings = [], ending = Next\<rparr>
   \<and> \<not> mutating_verb get_items_no_store \<and> env_truthy (CACHE_STATUS_HEADER status_env)
   \<and> shouldSkipCache table_deps get_items_no_store
   \<and> headers (checkCacheMiddleware table_deps status_env (Some fresh_store) 1000 get_items_no_store) =
       [(''X-Cache'', ''MISS'')]
   \<and> table_getCacheValue down_store ''/items'' = Inl (Error ''ECONNREFUSED'')
   \<and> headers (checkCacheMiddleware table_deps status_env (Some down_store) 1000 get_items) =
       [(''X-Cache'', ''MISS'')]
   \<and> table_getCacheValue empty_store ''/items'' = Inr Undefined \<and> \<not> truthy Undefined
   \<and> headers (checkCacheMiddleware table_deps status_env (Some empty_store) 1000 get_items) =
       [(''X-Cache'', ''MISS'')]"
  using
    early_pass_through_sets_no_header [where req = post_items and e = status_env
      and cache = "Some fresh_store" and d = table_deps and now = 1000 and c = fresh_store]
    early_pass_through_sets_no_header [where req = get_items and e = off_env
      and cache = "Some fresh_store" and d = table_deps and now = 1000 and c = fresh_store]
    early_pass_through_sets_no_header [where req = get_items and e = status_env
      and cache = None and d = table_deps and now = 1000 and c = fresh_store]
    early_pass_through_sets_no_header [where req = get_items_no_store and e = status_env
      and cache = "Some fresh_store" and d = table_deps and now = 1000 and c = fresh_store]
    early_pass_through_sets_no_header [where req = get_items and e = status_env
      and cache = "Some down_store" and d = table_deps and now = 1000 and c = down_store]
    early_pass_through_sets_no_header [where req = get_items and e = status_env
      and cache = "Some empty_store" and d = table_deps and now = 1000 and c = empty_store]
  by (simp add: post_items_mutating get_items_not_mutating get_items_no_store_not_mutating)

section \<open>The claims about the webhooks service\<close>

text \<open>
  C3. Each of \<open>createOne\<close>, \<open>createMany\<close>, \<open>updateMany\<close> and \<open>deleteMany\<close> calls
  \<open>messenger.publish('webhooks', { type: 'reload' })\<close> exactly once when the inherited
  method succeeds: the record of calls grows by that one call and the bus is what one
  \<open>publish\<close> makes of it. When the inherited method throws, the error is passed on,
  \<open>publish\<close> is not called and the bus is left as it was.
\<close>

theorem publish_once_per_successful_mutation:
  "((\<exists>k. fst (super_createOne svc data opts (database w)) = Inr k) \<longrightarrow>
      publish_calls (snd (createOne svc m data opts w)) = publish_calls w @ [(''webhooks'', reload)]
      \<and> bus (snd (createOne svc m data opts w)) = snd (publish m ''webhooks'' reload (bus w)))
   \<and> ((\<exists>err. fst (super_createOne svc data opts (database w)) = Inl err) \<longrightarrow>
      fst (createOne svc m data opts w) = fst (super_createOne svc data opts (database w))
      \<and> publish_calls (snd (createOne svc m data opts w)) = publish_calls w
      \<and> bus (snd (createOne svc m data opts w)) = bus w)
   \<and> ((\<exists>ks. fst (super_createMany svc datas opts (database w)) = Inr ks) \<longrightarrow>
      publish_calls (snd (createMany svc m datas opts w)) = publish_calls w @ [(''webhooks'', reload)]
      \<and> bus (snd (createMany svc m datas opts w)) = snd (publish m ''webhooks'' reload (bus w)))
   \<and> ((\<exists>err. fst (super_createMany svc datas opts (database w)) = Inl err) \<longrightarrow>
      fst (createMany svc m datas opts w) = fst (super_createMany svc datas opts (database w))
      \<and> publish_calls (snd (createMany svc m datas opts w)) = publish_calls w
      \<and> bus (snd (createMany svc m datas opts w)) = bus w)
   \<and> ((\<exists>ks. fst (super_updateMany svc keys data opts (database w)) = Inr ks) \<longrightarrow>
      publish_calls (snd (updateMany svc m keys data opts w)) =
        publish_calls w @ [(''webhooks'', reload)]
      \<and> bus (snd (updateMany svc m keys data opts w)) = snd (publish m ''webhooks'' reload (bus w)))
   \<and> ((\<exists>err. fst (super_updateMany svc keys data opts (database w)) = Inl err) \<longrightarrow>
      fst (updateMany svc m keys data opts w) = fst (super_updateMany svc keys data opts (database w))
      \<and> publish_calls (snd (updateMany svc m keys data opts w)) = publish_calls w
      \<and> bus (snd (updateMany svc m keys data opts w)) = bus w)
   \<and> ((\<exists>ks. fst (super_deleteMany svc keys opts (database w)) = Inr ks) \<longrightarrow>
      publish_calls (snd (deleteMany svc m keys opts w)) = publish_calls w @ [(''webhooks'', reload)]
      \<and> bus (snd (deleteMany svc m keys opts w)) = snd (publish m ''webhooks'' reload (bus w)))
   \<and> ((\<exists>err. fst (super_deleteMany svc keys opts (database w)) = Inl err) \<longrightarrow>
      fst (deleteMany svc m keys opts w) = fst (super_deleteMany svc keys opts (database w))
      \<and> publish_calls (snd (deleteMany svc m keys opts w)) = publish_calls w
      \<and> bus (snd (deleteMany svc m keys opts w)) = bus w)"
proof -
  have one: "(\<exists>k. fst r = Inr k) \<longrightarrow>
      publish_calls (snd (case r of (Inl err, db) \<Rightarrow> (Inl err, w\<lparr>database := db\<rparr>)
         | (Inr result, db) \<Rightarrow> publish_and_return m result (w\<lparr>database := db\<rparr>)))
        = publish_calls w @ [(''webhooks'', reload)]
      \<and> bus (snd (case r of (Inl err, db) \<Rightarrow> (Inl err, w\<lparr>database := db\<rparr>)
         | (Inr result, db) \<Rightarrow> publish_and_return m result (w\<lparr>database := db\<rparr>)))
        = snd (publish m ''webhooks'' reload (bus w))"
    for r :: "(error + 'e) \<times> 'a"
    by (cases r) (auto simp: publish_and_return_simps)
  have none: "(\<exists>err. fst r = Inl err) \<longrightarrow>
      fst (case r of (Inl err, db) \<Rightarrow> (Inl err, w\<lparr>database := db\<rparr>)
         | (Inr result, db) \<Rightarrow> publish_and_return m result (w\<lparr>database := db\<rparr>)) = fst r
      \<and> publish_calls (snd (case r of (Inl err, db) \<Rightarrow> (Inl err, w\<lparr>database := db\<rparr>)
         | (Inr result, db) \<Rightarrow> publish_and_return m result (w\<lparr>database := db\<rparr>)))
        = publish_calls w
      \<and> bus (snd (case r of (Inl err, db) \<Rightarrow> (Inl err, w\<lparr>database := db\<rparr>)
         | (Inr result, db) \<Rightarrow> publish_and_return m result (w\<lparr>database := db\<rparr>))) = bus w"
    for r :: "(error + 'e) \<times> 'a"
    by (cases r) auto
  show ?thesis
    unfolding service_defs
    by (intro conjI one none)
qed

theorem publish_once_per_successful_mutation_witness:
  "fst (super_createOne rows_service hook None (database one_hook)) = Inr (KeyNumber 2)
   \<and> publish_calls (snd (createOne rows_service list_messenger hook None one_hook)) =
       [(''webhooks'', reload)]
   \<and> bus (snd (createOne rows_service list_messenger hook None one_hook)) = [(''webhooks'', reload)]
   \<and> fst (super_createMany rows_service [hook] None (database one_hook)) = Inr [KeyNumber 2]
   \<and> publish_calls (snd (createMany rows_service list_messenger [hook] None one_hook)) =
       [(''webhooks'', reload)]
   \<and> fst (super_updateMany rows_service [KeyNumber 1] hook None (database one_hook)) =
       Inr [KeyNumber 1]
   \<and> publish_calls (snd (updateMany rows_service list_messenger [KeyNumber 1] hook None one_hook))
       = [(''webhooks'', reload)]
   \<and> fst (super_deleteMany rows_service [KeyNumber 1] None (database one_hook)) = Inr [KeyNumber 1]
   \<and> publish_calls (snd (deleteMany rows_service list_messenger [KeyNumber 1] None one_hook)) =
       [(''webhooks'', reload)]
   \<and> fst (super_createOne rows_service [] None (database one_hook)) = Inl (Error ''empty payload'')
   \<and> fst (createOne rows_service list_messenger [] None one_hook) = Inl (Error ''empty payload'')
   \<and> publish_calls (snd (createOne rows_service list_messenger [] None one_hook)) = []
   \<and> fst (super_createMany rows_service [hook, []] None (database one_hook)) =
       Inl (Error ''empty payload'')
   \<and> publish_calls (snd (createMany rows_service list_messenger [hook, []] None one_hook)) = []
   \<and> fst (super_updateMany rows_service [KeyNumber 9] [] None (database one_hook)) =
       Inl (Error ''forbidden'')
   \<and> publish_calls (snd (updateMany rows_service list_messenger [KeyNumber 9] [] None one_hook))
       = []
   \<and> fst (super_deleteMany rows_service [KeyNumber 9] None (database one_hook)) =
       Inl (Error ''forbidden'')
   \<and> publish_calls (snd (deleteMany rows_service list_messenger [KeyNumber 9] None one_hook)) = []"
  using
    publish_once_per_successful_mutation [where svc = rows_service and m = list_messenger
      and w = one_hook and opts = None and data = hook and datas = "[hook]"
      and keys = "[KeyNumber 1]"]
    publish_once_per_successful_mutation [where svc = rows_service and m = list_messenger
      and w = one_hook and opts = None and data = "[]" and datas = "[hook, []]"
      and keys = "[KeyNumber 9]"]
  by simp

text \<open>
  C7 as stated: when \<open>publish\<close> fails after a successful mutation, the caller still
  gets the keys. With a messenger whose \<open>publish\<close> throws, \<open>createOne\<close> inserts the
  row and then throws the error of the messenger in place of returning the key.
\<close>

theorem publish_failure_fails_createOne_counterexample:
  "fst (super_createOne rows_service hook None (database one_hook)) = Inr (KeyNumber 2)
   \<and> fst (publish broken_messenger ''webhooks'' reload (bus one_hook)) =
       Some (Error ''bus unavailable'')
   \<and> fst (createOne rows_service broken_messenger hook None one_hook) =
       Inl (Error ''bus unavailable'')
   \<and> fst (createOne rows_service broken_messenger hook None one_hook) \<noteq> Inr (KeyNumber 2)
   \<and> database (snd (createOne rows_service broken_messenger hook None one_hook)) =
       [(KeyNumber 1, hook), (KeyNumber 2, hook)]"
  by (simp add: createOne_def publish_and_return_def messenger_publish_def)

text \<open>
  C7, amended. When the call of \<open>publish\<close> returns, each of the four methods returns
  what the inherited method returned, unchanged. When \<open>publish\<close> throws after a
  successful mutation, the method throws that error and the caller gets no key, while
  the database stays as the mutation left it.
\<close>

theorem result_returned_when_publish_returns:
  "(fst (publish m ''webhooks'' reload (bus w)) = None \<longrightarrow>
      fst (createOne svc m data opts w) = fst (super_createOne svc data opts (database w))
      \<and> fst (createMany svc m datas opts w) = fst (super_createMany svc datas opts (database w))
      \<and> fst (updateMany svc m keys data opts w) =
          fst (super_updateMany svc keys data opts (database w))
      \<and> fst (deleteMany svc m keys opts w) = fst (super_deleteMany svc keys opts (database w)))
   \<and> (fst (publish m ''webhooks'' reload (bus w)) = Some e \<longrightarrow>
      ((\<exists>k. fst (super_createOne svc data opts (database w)) = Inr k) \<longrightarrow>
         fst (createOne svc m data opts w) = Inl e
         \<and> database (snd (createOne svc m data opts w)) =
             snd (super_createOne svc data opts (database w)))
      \<and> ((\<exists>ks. fst (super_createMany svc datas opts (database w)) = Inr ks) \<longrightarrow>
         fst (createMany svc m datas opts w) = Inl e
         \<and> database (snd (createMany svc m datas opts w)) =
             snd (super_createMany svc datas opts (database w)))
      \<and> ((\<exists>ks. fst (super_updateMany svc keys data opts (database w)) = Inr ks) \<longrightarrow>
         fst (updateMany svc m keys data opts w) = Inl e
         \<and> database (snd (updateMany svc m keys data opts w)) =
             snd (super_updateMany svc keys data opts (database w)))
      \<and> ((\<exists>ks. fst (super_deleteMany svc keys opts (database w)) = Inr ks) \<longrightarrow>
         fst (deleteMany svc m keys opts w) = Inl e
         \<and> database (snd (deleteMany svc m keys opts w)) =
             snd (super_deleteMany svc keys opts (database w))))"
  unfolding service_defs
  by (intro conjI impI; (elim exE)?; (rule publish_returns_result | (drule (1) publish_throws_result [OF _ _ refl], simp)))

theorem result_returned_when_publish_returns_witness:
  "fst (publish list_messenger ''webhooks'' reload (bus one_hook)) = None
   \<and> fst (createOne rows_service list_messenger hook None one_hook) = Inr (KeyNumber 2)
   \<and> fst (createMany rows_service list_messenger [hook] None one_hook) = Inr [KeyNumber 2]
   \<and> fst (updateMany rows_service list_messenger [KeyNumber 1] hook None one_hook) =
       Inr [KeyNumber 1]
   \<and> fst (deleteMany rows_service list_messenger [KeyNumber 1] None one_hook) = Inr [KeyNumber 1]
   \<and> fst (publish broken_messenger ''webhooks'' reload (bus one_hook)) =
       Some (Error ''bus unavailable'')
   \<and> fst (super_createOne rows_service hook None (database one_hook)) = Inr (KeyNumber 2)
   \<and> fst (createOne rows_service broken_messenger hook None one_hook) =
       Inl (Error ''bus unavailable'')
   \<and> fst (super_createMany rows_service [hook] None (database one_hook)) = Inr [KeyNumber 2]
   \<and> fst (createMany rows_service broken_messenger [hook] None one_hook) =
       Inl (Error ''bus unavailable'')
   \<and> fst (super_updateMany rows_service [KeyNumber 1] hook None (database one_hook)) =
       Inr [KeyNumber 1]
   \<and> fst (updateMany rows_service broken_messenger [KeyNumber 1] hook None one_hook) =
       Inl (Error ''bus unavailable'')
   \<and> fst (super_deleteMany rows_service [KeyNumber 1] None (database one_hook)) = Inr [KeyNumber 1]
   \<and> fst (deleteMany rows_service broken_messenger [KeyNumber 1] None one_hook) =
       Inl (Error ''bus unavailable'')
   \<and> database (snd (deleteMany rows_service broken_messenger [KeyNumber 1] None one_hook)) = []"
  using
    result_returned_when_publish_returns [where svc = rows_service and m = list_messenger
      and w = one_hook and opts = None and data = hook and datas = "[hook]"
      and keys = "[KeyNumber 1]" and e = "Error ''bus unavailable''"]
    result_returned_when_publish_returns [where svc = rows_service and m = broken_messenger
      and w = one_hook and opts = None and data = hook and datas = "[hook]"
      and keys = "[KeyNumber 1]" and e = "Error ''bus unavailable''"]
  by simp

section \<open>The claim about key derivation\<close>

text \<open>
  C8. Two requests with the same method, path, caller and query parameters, the
  parameters in any order, get the same key; and on a resource with per-caller
  visibility, changing nothing but the caller changes the key.
\<close>

theorem deriveKey_same_request_same_key:
  "(req_method r1 = req_method r2 \<and> path r1 = path r2 \<and> mset (query r1) = mset (query r2)
      \<and> caller r1 = caller r2 \<longrightarrow>
      deriveKey per_caller r1 = deriveKey per_caller r2)
   \<and> (per_caller (path r) \<and> c \<noteq> caller r \<longrightarrow>
      deriveKey per_caller (r\<lparr>caller := c\<rparr>) \<noteq> deriveKey per_caller r)"
  by (auto simp: deriveKey_def dest: canonical_query_mset)

theorem deriveKey_same_request_same_key_witness:
  "req_method items_a_b = req_method items_b_a \<and> path items_a_b = path items_b_a
   \<and> mset (query items_a_b) = mset (query items_b_a) \<and> query items_a_b \<noteq> query items_b_a
   \<and> caller items_a_b = caller items_b_a
   \<and> deriveKey users_only items_a_b = deriveKey users_only items_b_a
   \<and> users_only (path users_me) \<and> ''bob'' \<noteq> caller users_me
   \<and> deriveKey users_only (users_me\<lparr>caller := ''bob''\<rparr>) \<noteq> deriveKey users_only users_me"
  using
    deriveKey_same_request_same_key [where ?r1.0 = items_a_b and ?r2.0 = items_b_a
      and per_caller = users_only and r = users_me and c = "''bob''"]
  by (simp add: startsWith_def)

end
